theory Spec2Isabelle
  imports Main
begin

section \<open>Theme management of the portfolio site (assets/js/theme.js)\<close>

text \<open>
  The script keeps one module variable, \<open>currentTheme\<close>, and talks to four parts of
  the browser: \<open>localStorage\<close>, the attributes of \<open>document.documentElement\<close>, the
  \<open>.theme-toggle\<close> buttons, and \<open>window\<close> (\<open>matchMedia\<close>, \<open>dispatchEvent\<close>). The
  model below carries all of them in one record and passes it through every function.
  A JavaScript function can return or throw, so a computation maps a page to an
  outcome (\<open>Inl\<close> a thrown exception, \<open>Inr\<close> the returned value) and the page it
  leaves behind.
\<close>

subsection \<open>Values and browser state\<close>

text \<open>
  Values a caller can hand to \<open>ThemeManager.setTheme\<close>. Numbers are cut down to
  integers and objects to a reference: the script only ever compares the argument
  with three strings.
\<close>

datatype jsval =
    JUndefined
  | JNull
  | JBoolean bool
  | JNumber int
  | JString string
  | JObject nat

text \<open>The exceptions \<open>localStorage\<close> raises.\<close>

datatype exn = SecurityError | QuotaExceededError

text \<open>
  \<open>localStorage\<close>: its items, whether access is denied altogether (every call
  throws \<open>SecurityError\<close>), and whether its quota is used up (\<open>setItem\<close> throws
  \<open>QuotaExceededError\<close>, reads still work).
\<close>

record storage =
  items :: "string \<rightharpoonup> string"
  denied :: bool
  quota_full :: bool

text \<open>
  The object \<open>window.matchMedia("(prefers-color-scheme: dark)")\<close> returns: its
  \<open>matches\<close> flag, and whether it has an \<open>addEventListener\<close> method.
\<close>

record mediaQueryList =
  matches :: bool
  has_addEventListener :: bool

text \<open>
  A \<open>.theme-toggle\<close> button. An icon is \<open>None\<close> when \<open>querySelector\<close> finds no
  such child, otherwise \<open>Some d\<close> with \<open>d\<close> its \<open>style.display\<close>.
\<close>

record toggle_button =
  sunIcon :: "string option"
  moonIcon :: "string option"
  systemIcon :: "string option"
  aria_label :: "string option"

text \<open>
  What a \<open>themeChange\<close> listener gets: the event's \<open>detail.theme\<close>, and, because
  listeners run inside \<open>dispatchEvent\<close>, what \<open>ThemeManager.getTheme()\<close> and the
  root's \<open>data-theme\<close> attribute read at that moment.
\<close>

record themeChange =
  detail_theme :: string
  seen_currentTheme :: string
  seen_data_theme :: "string option"

record page =
  currentTheme :: string
  localStorage :: storage
  root_attributes :: "string \<rightharpoonup> string"
  toggle_buttons :: "toggle_button list"
  window_matchMedia :: "mediaQueryList option"
  media_change_listeners :: nat
  document_click_listeners :: nat
  console_warnings :: "string list"
  dispatched :: "themeChange list"

type_synonym 'a js = "page \<Rightarrow> (exn + 'a) \<times> page"

definition js_return :: "'a \<Rightarrow> 'a js" where
  "js_return x = (\<lambda>s. (Inr x, s))"

definition js_throw :: "exn \<Rightarrow> 'a js" where
  "js_throw e = (\<lambda>s. (Inl e, s))"

text \<open>\<open>a; b\<close> where \<open>b\<close> may use the value of \<open>a\<close>: a throw in \<open>a\<close> skips \<open>b\<close>.\<close>

definition js_then :: "'a js \<Rightarrow> ('a \<Rightarrow> 'b js) \<Rightarrow> 'b js" where
  "js_then m f = (\<lambda>s. case m s of (Inl e, s') \<Rightarrow> (Inl e, s') | (Inr x, s') \<Rightarrow> f x s')"

definition js_seq :: "unit js \<Rightarrow> 'b js \<Rightarrow> 'b js" where
  "js_seq m k = js_then m (\<lambda>_. k)"

text \<open>\<open>try { m } catch (e) { h e }\<close>; the handler starts from the page the throw left.\<close>

definition js_try_catch :: "'a js \<Rightarrow> (exn \<Rightarrow> 'a js) \<Rightarrow> 'a js" where
  "js_try_catch m h = (\<lambda>s. case m s of (Inl e, s') \<Rightarrow> h e s' | (Inr x, s') \<Rightarrow> (Inr x, s'))"

definition js_update :: "(page \<Rightarrow> page) \<Rightarrow> unit js" where
  "js_update f = (\<lambda>s. (Inr (), f s))"

subsection \<open>Browser primitives\<close>

definition localStorage_getItem :: "string \<Rightarrow> string option js" where
  "localStorage_getItem k = (\<lambda>s.
     if denied (localStorage s) then js_throw SecurityError s
     else js_return (items (localStorage s) k) s)"

definition localStorage_setItem :: "string \<Rightarrow> string \<Rightarrow> unit js" where
  "localStorage_setItem k v = (\<lambda>s.
     if denied (localStorage s) then js_throw SecurityError s
     else if quota_full (localStorage s) then js_throw QuotaExceededError s
     else js_update (\<lambda>s. s\<lparr>localStorage :=
            (localStorage s)\<lparr>items := (items (localStorage s))(k \<mapsto> v)\<rparr>\<rparr>) s)"

definition console_warn :: "string \<Rightarrow> unit js" where
  "console_warn msg = js_update (\<lambda>s. s\<lparr>console_warnings := console_warnings s @ [msg]\<rparr>)"

definition root_removeAttribute :: "string \<Rightarrow> unit js" where
  "root_removeAttribute name =
     js_update (\<lambda>s. s\<lparr>root_attributes := (root_attributes s)(name := None)\<rparr>)"

definition root_setAttribute :: "string \<Rightarrow> string \<Rightarrow> unit js" where
  "root_setAttribute name v =
     js_update (\<lambda>s. s\<lparr>root_attributes := (root_attributes s)(name \<mapsto> v)\<rparr>)"

text \<open>
  \<open>window.dispatchEvent(new CustomEvent("themeChange", { detail: { theme } }))\<close>:
  the listeners run before it returns; the log keeps what each such call delivered.
\<close>

definition dispatch_themeChange :: "string \<Rightarrow> unit js" where
  "dispatch_themeChange theme =
     js_update (\<lambda>s. s\<lparr>dispatched := dispatched s @
        [\<lparr>detail_theme = theme, seen_currentTheme = currentTheme s,
          seen_data_theme = root_attributes s ''data-theme''\<rparr>]\<rparr>)"

text \<open>The operator \<open>||\<close> on the result of \<open>getItem\<close>: \<open>null\<close> and \<open>""\<close> are falsy.\<close>

fun js_or :: "string option \<Rightarrow> string \<Rightarrow> string" where
  "js_or None d = d"
| "js_or (Some v) d = (if v = [] then d else v)"

text \<open>
  \<open>Array.prototype.includes\<close> compares with SameValueZero, which on the values of
  \<open>jsval\<close> is equality.
\<close>

definition js_includes :: "jsval list \<Rightarrow> jsval \<Rightarrow> bool" where
  "js_includes xs v = list_ex (\<lambda>x. x = v) xs"

subsection \<open>The script\<close>

definition THEME_KEY :: string where
  "THEME_KEY = ''mms-theme-preference''"

definition THEMES_SYSTEM :: string where
  "THEMES_SYSTEM = ''system''"

definition THEMES_LIGHT :: string where
  "THEMES_LIGHT = ''light''"

definition THEMES_DARK :: string where
  "THEMES_DARK = ''dark''"

text \<open>\<open>Object.values(THEMES)\<close>, in the order the object literal lists them.\<close>

definition THEMES_values :: "jsval list" where
  "THEMES_values = [JString THEMES_SYSTEM, JString THEMES_LIGHT, JString THEMES_DARK]"

definition getSavedTheme :: "string js" where
  "getSavedTheme =
     js_try_catch
       (js_then (localStorage_getItem THEME_KEY) (\<lambda>v. js_return (js_or v THEMES_SYSTEM)))
       (\<lambda>e. js_seq (console_warn ''localStorage not available:'')
                    (js_return THEMES_SYSTEM))"

definition saveTheme :: "string \<Rightarrow> unit js" where
  "saveTheme theme =
     js_try_catch
       (localStorage_setItem THEME_KEY theme)
       (\<lambda>e. console_warn ''Could not save theme preference:'')"

definition getSystemTheme :: "page \<Rightarrow> string" where
  "getSystemTheme s =
     (case window_matchMedia s of
        None \<Rightarrow> THEMES_LIGHT
      | Some mq \<Rightarrow> if matches mq then THEMES_DARK else THEMES_LIGHT)"

text \<open>The body of the \<open>forEach\<close> callback of \<open>updateThemeToggleIcon\<close>, for one button.\<close>

definition updateButton :: "page \<Rightarrow> toggle_button \<Rightarrow> toggle_button" where
  "updateButton s button =
     (if sunIcon button = None \<or> moonIcon button = None then button
      else
        let hidden = button\<lparr>sunIcon := Some ''none'', moonIcon := Some ''none'',
                       systemIcon := map_option (\<lambda>_. ''none'') (systemIcon button)\<rparr>;
            shown =
              (if currentTheme s = THEMES_SYSTEM then
                 (if systemIcon hidden \<noteq> None then hidden\<lparr>systemIcon := Some ''block''\<rparr>
                  else if getSystemTheme s = THEMES_DARK
                       then hidden\<lparr>moonIcon := Some ''block''\<rparr>
                       else hidden\<lparr>sunIcon := Some ''block''\<rparr>)
               else if currentTheme s = THEMES_DARK then hidden\<lparr>moonIcon := Some ''block''\<rparr>
               else hidden\<lparr>sunIcon := Some ''block''\<rparr>);
            label =
              (if currentTheme s = THEMES_SYSTEM
                 then ''Using system theme, click to use light theme''
               else if currentTheme s = THEMES_LIGHT
                 then ''Using light theme, click to use dark theme''
               else ''Using dark theme, click to use system theme'')
        in shown\<lparr>aria_label := Some label\<rparr>)"

definition updateThemeToggleIcon :: "unit js" where
  "updateThemeToggleIcon =
     js_update (\<lambda>s. s\<lparr>toggle_buttons := map (updateButton s) (toggle_buttons s)\<rparr>)"

text \<open>
  \<open>applyTheme\<close> is private to the script and is called with the result of
  \<open>getSavedTheme\<close>, with an argument \<open>setTheme\<close> has checked, and with constants:
  always a string, though not always one of the three names.
\<close>

definition applyTheme :: "string \<Rightarrow> unit js" where
  "applyTheme theme =
     js_seq (if theme = THEMES_SYSTEM then root_removeAttribute ''data-theme''
             else root_setAttribute ''data-theme'' theme)
    (js_seq (js_update (\<lambda>s. s\<lparr>currentTheme := theme\<rparr>))
    (js_seq updateThemeToggleIcon
            (dispatch_themeChange theme)))"

definition cycleTheme :: "unit js" where
  "cycleTheme = (\<lambda>s.
     let nextTheme =
           (if currentTheme s = THEMES_SYSTEM then THEMES_LIGHT
            else if currentTheme s = THEMES_LIGHT then THEMES_DARK
            else if currentTheme s = THEMES_DARK then THEMES_SYSTEM
            else THEMES_SYSTEM)
     in js_seq (saveTheme nextTheme) (applyTheme nextTheme) s)"

text \<open>The listener \<open>initTheme\<close> puts on the media query's \<open>change\<close> event.\<close>

definition on_media_change :: "unit js" where
  "on_media_change = (\<lambda>s.
     if currentTheme s = THEMES_SYSTEM then applyTheme THEMES_SYSTEM s
     else js_return () s)"

text \<open>
  The listener \<open>initTheme\<close> puts on the document's \<open>click\<close> event; the argument says
  whether \<open>e.target.closest(".theme-toggle")\<close> found a button.
\<close>

definition on_document_click :: "bool \<Rightarrow> unit js" where
  "on_document_click in_toggle = (if in_toggle then cycleTheme else js_return ())"

definition initTheme :: "unit js" where
  "initTheme =
     js_then getSavedTheme (\<lambda>savedTheme.
     js_seq (applyTheme savedTheme)
    (js_seq (\<lambda>s. case window_matchMedia s of
                    None \<Rightarrow> js_return () s
                  | Some mediaQuery \<Rightarrow>
                      if has_addEventListener mediaQuery
                      then js_update (\<lambda>s. s\<lparr>media_change_listeners :=
                                               Suc (media_change_listeners s)\<rparr>) s
                      else js_return () s)
            (js_update (\<lambda>s. s\<lparr>document_click_listeners :=
                                  Suc (document_click_listeners s)\<rparr>))))"

text \<open>The object \<open>window.ThemeManager\<close>.\<close>

definition getTheme :: "string js" where
  "getTheme = (\<lambda>s. js_return (currentTheme s) s)"

definition setTheme :: "jsval \<Rightarrow> unit js" where
  "setTheme theme =
     (if js_includes THEMES_values theme then
        (case theme of
           JString t \<Rightarrow> js_seq (saveTheme t) (applyTheme t)
         | _ \<Rightarrow> js_return ())
      else js_return ())"

subsection \<open>Events from the browser\<close>

text \<open>
  The browser calls each registered listener in turn; an exception a listener throws
  is reported and does not stop the others.
\<close>

fun run_listeners :: "nat \<Rightarrow> unit js \<Rightarrow> page \<Rightarrow> page" where
  "run_listeners 0 h s = s"
| "run_listeners (Suc n) h s = run_listeners n h (snd (h s))"

text \<open>
  The operating system switches its appearance: the media query's \<open>matches\<close> takes
  the new value and its \<open>change\<close> listeners run.
\<close>

definition os_appearance_change :: "bool \<Rightarrow> page \<Rightarrow> page" where
  "os_appearance_change dark s =
     run_listeners (media_change_listeners s) on_media_change
       (s\<lparr>window_matchMedia := map_option (\<lambda>mq. mq\<lparr>matches := dark\<rparr>) (window_matchMedia s)\<rparr>)"

definition document_click :: "bool \<Rightarrow> page \<Rightarrow> page" where
  "document_click in_toggle s =
     run_listeners (document_click_listeners s) (on_document_click in_toggle) s"

subsection \<open>Pages to run the script on\<close>

text \<open>
  The page as the script starts: line 21 sets \<open>currentTheme\<close> to \<open>THEMES.SYSTEM\<close>,
  and no listener is registered, no warning logged and no event dispatched yet.
\<close>

definition page_at_load ::
    "storage \<Rightarrow> (string \<rightharpoonup> string) \<Rightarrow> toggle_button list \<Rightarrow> mediaQueryList option \<Rightarrow> page" where
  "page_at_load st attrs buttons mq =
     \<lparr>currentTheme = THEMES_SYSTEM, localStorage = st, root_attributes = attrs,
      toggle_buttons = buttons, window_matchMedia = mq, media_change_listeners = 0,
      document_click_listeners = 0, console_warnings = [], dispatched = []\<rparr>"

text \<open>A working store that holds \<open>v\<close> under the preference key and nothing else.\<close>

definition storage_holding :: "string option \<Rightarrow> storage" where
  "storage_holding v =
     \<lparr>items = (\<lambda>k. if k = THEME_KEY then v else None), denied = False, quota_full = False\<rparr>"

text \<open>A toggle button with a sun and a moon icon and no system icon.\<close>

definition sample_button :: toggle_button where
  "sample_button = \<lparr>sunIcon = Some [], moonIcon = Some [], systemIcon = None, aria_label = None\<rparr>"

definition sample_page :: "storage \<Rightarrow> mediaQueryList option \<Rightarrow> page" where
  "sample_page st mq = page_at_load st Map.empty [sample_button] mq"

text \<open>The theme marker of the document root: its \<open>data-theme\<close> attribute.\<close>

abbreviation theme_marker :: "page \<Rightarrow> string option" where
  "theme_marker s \<equiv> root_attributes s ''data-theme''"

section \<open>What each function does to the page\<close>

lemmas js_defs = js_return_def js_throw_def js_then_def js_seq_def js_try_catch_def js_update_def

lemmas theme_names = THEMES_SYSTEM_def THEMES_LIGHT_def THEMES_DARK_def

lemmas sample_defs = storage_holding_def sample_button_def sample_page_def page_at_load_def
  THEME_KEY_def theme_names

lemma saveTheme_run:
  "saveTheme t s =
     (Inr (),
      if denied (localStorage s) \<or> quota_full (localStorage s)
      then s\<lparr>console_warnings := console_warnings s @ [''Could not save theme preference:'']\<rparr>
      else s\<lparr>localStorage := (localStorage s)\<lparr>items := (items (localStorage s))(THEME_KEY \<mapsto> t)\<rparr>\<rparr>)"
  by (simp add: saveTheme_def localStorage_setItem_def console_warn_def js_defs)

lemma getSavedTheme_run:
  "getSavedTheme s =
     (if denied (localStorage s)
      then (Inr THEMES_SYSTEM,
            s\<lparr>console_warnings := console_warnings s @ [''localStorage not available:'']\<rparr>)
      else (Inr (js_or (items (localStorage s) THEME_KEY) THEMES_SYSTEM), s))"
  by (simp add: getSavedTheme_def localStorage_getItem_def console_warn_def js_defs)

lemma applyTheme_run:
  "applyTheme t s =
     (Inr (),
      (let s1 = s\<lparr>root_attributes := (root_attributes s)
                     (''data-theme'' := (if t = THEMES_SYSTEM then None else Some t)),
                  currentTheme := t\<rparr>;
           s2 = s1\<lparr>toggle_buttons := map (updateButton s1) (toggle_buttons s1)\<rparr>
       in s2\<lparr>dispatched := dispatched s @
             [\<lparr>detail_theme = t, seen_currentTheme = t,
               seen_data_theme = (if t = THEMES_SYSTEM then None else Some t)\<rparr>]\<rparr>))"
  by (simp add: applyTheme_def root_removeAttribute_def root_setAttribute_def
        updateThemeToggleIcon_def dispatch_themeChange_def js_defs Let_def)

lemma applyTheme_returns: "fst (applyTheme t s) = Inr ()"
  by (simp add: applyTheme_run)

lemma applyTheme_currentTheme: "currentTheme (snd (applyTheme t s)) = t"
  by (simp add: applyTheme_run Let_def)

lemma applyTheme_marker:
  "theme_marker (snd (applyTheme t s)) = (if t = THEMES_SYSTEM then None else Some t)"
  by (simp add: applyTheme_run Let_def)

lemma applyTheme_dispatched:
  "dispatched (snd (applyTheme t s)) = dispatched s @
     [\<lparr>detail_theme = t, seen_currentTheme = t,
       seen_data_theme = (if t = THEMES_SYSTEM then None else Some t)\<rparr>]"
  by (simp add: applyTheme_run Let_def)

lemma applyTheme_keeps:
  "localStorage (snd (applyTheme t s)) = localStorage s"
  "console_warnings (snd (applyTheme t s)) = console_warnings s"
  "window_matchMedia (snd (applyTheme t s)) = window_matchMedia s"
  "media_change_listeners (snd (applyTheme t s)) = media_change_listeners s"
  "document_click_listeners (snd (applyTheme t s)) = document_click_listeners s"
  by (simp_all add: applyTheme_run Let_def)

lemma save_then_apply:
  "js_seq (saveTheme t) (applyTheme t) s = applyTheme t (snd (saveTheme t s))"
  by (simp add: js_seq_def js_then_def saveTheme_run)

lemma js_includes_THEMES:
  "js_includes THEMES_values v \<longleftrightarrow>
     v = JString THEMES_SYSTEM \<or> v = JString THEMES_LIGHT \<or> v = JString THEMES_DARK"
  by (auto simp add: js_includes_def THEMES_values_def)

lemma setTheme_valid:
  "t = THEMES_SYSTEM \<or> t = THEMES_LIGHT \<or> t = THEMES_DARK \<Longrightarrow>
   setTheme (JString t) s = applyTheme t (snd (saveTheme t s))"
  by (simp add: setTheme_def js_includes_THEMES save_then_apply)

lemma setTheme_invalid:
  "\<not> js_includes THEMES_values v \<Longrightarrow> setTheme v s = (Inr (), s)"
  by (simp add: setTheme_def js_return_def)

lemma cycleTheme_run:
  "cycleTheme s =
     (let nextTheme =
           (if currentTheme s = THEMES_SYSTEM then THEMES_LIGHT
            else if currentTheme s = THEMES_LIGHT then THEMES_DARK
            else THEMES_SYSTEM)
      in applyTheme nextTheme (snd (saveTheme nextTheme s)))"
  by (simp add: cycleTheme_def Let_def save_then_apply)

lemma then_getTheme:
  "fst (m s) = Inr () \<Longrightarrow> fst (js_seq m getTheme s) = Inr (currentTheme (snd (m s)))"
  by (cases "m s") (simp add: js_seq_def js_then_def getTheme_def js_return_def)

lemma initTheme_returns: "fst (initTheme s) = Inr ()"
  by (simp add: initTheme_def js_defs getSavedTheme_run applyTheme_run split: option.split)

lemma initTheme_currentTheme:
  "currentTheme (snd (initTheme s)) =
     (if denied (localStorage s) then THEMES_SYSTEM
      else js_or (items (localStorage s) THEME_KEY) THEMES_SYSTEM)"
  by (simp add: initTheme_def js_defs getSavedTheme_run applyTheme_run Let_def
      split: option.split)

lemma initTheme_marker:
  "theme_marker (snd (initTheme s)) =
     (let t = (if denied (localStorage s) then THEMES_SYSTEM
               else js_or (items (localStorage s) THEME_KEY) THEMES_SYSTEM)
      in if t = THEMES_SYSTEM then None else Some t)"
  by (simp add: initTheme_def js_defs getSavedTheme_run applyTheme_run Let_def
      split: option.split)

lemma initTheme_localStorage: "localStorage (snd (initTheme s)) = localStorage s"
  by (simp add: initTheme_def js_defs getSavedTheme_run applyTheme_run Let_def
      split: option.split)

lemma initTheme_media_change_listeners:
  "media_change_listeners (snd (initTheme s)) =
     (case window_matchMedia s of
        None \<Rightarrow> media_change_listeners s
      | Some mq \<Rightarrow> if has_addEventListener mq then Suc (media_change_listeners s)
                   else media_change_listeners s)"
  by (simp add: initTheme_def js_defs getSavedTheme_run applyTheme_run Let_def
      split: option.split)

lemma initTheme_dispatched:
  "dispatched (snd (initTheme s)) = dispatched s @
     [\<lparr>detail_theme = currentTheme (snd (initTheme s)),
       seen_currentTheme = currentTheme (snd (initTheme s)),
       seen_data_theme = theme_marker (snd (initTheme s))\<rparr>]"
  by (simp add: initTheme_def js_defs getSavedTheme_run applyTheme_run Let_def
      split: option.split)

lemma run_listeners_idle:
  "(\<And>p. currentTheme p = currentTheme s \<Longrightarrow> h p = (Inr (), p)) \<Longrightarrow> run_listeners n h s = s"
  by (induction n) simp_all

section \<open>The claims\<close>

text \<open>
  C1, at a stored value that is none of the three names: with \<open>"blue"\<close> under the
  preference key, \<open>initTheme\<close> passes it on unchecked. Afterwards \<open>getTheme()\<close>
  returns \<open>"blue"\<close>, the root carries \<open>data-theme="blue"\<close>, and the toggle button
  shows its sun icon under the label of the dark theme.
\<close>

theorem initTheme_unrecognized_stored_value:
  "fst (js_seq initTheme getTheme (sample_page (storage_holding (Some ''blue'')) None))
     = Inr ''blue'' \<and>
   theme_marker (snd (initTheme (sample_page (storage_holding (Some ''blue'')) None)))
     = Some ''blue'' \<and>
   toggle_buttons (snd (initTheme (sample_page (storage_holding (Some ''blue'')) None)))
     = [\<lparr>sunIcon = Some ''block'', moonIcon = Some ''none'', systemIcon = None,
         aria_label = Some ''Using dark theme, click to use system theme''\<rparr>]"
proof (intro conjI)
  let ?p = "sample_page (storage_holding (Some ''blue'')) None"
  show "fst (js_seq initTheme getTheme ?p) = Inr ''blue''"
    using then_getTheme [of initTheme ?p]
    by (simp add: initTheme_returns initTheme_currentTheme sample_defs)
  show "theme_marker (snd (initTheme ?p)) = Some ''blue''"
    by (simp add: initTheme_marker sample_defs)
  show "toggle_buttons (snd (initTheme ?p))
     = [\<lparr>sunIcon = Some ''block'', moonIcon = Some ''none'', systemIcon = None,
         aria_label = Some ''Using dark theme, click to use system theme''\<rparr>]"
    by (simp add: initTheme_def js_defs getSavedTheme_run applyTheme_run Let_def
          updateButton_def sample_defs)
qed

text \<open>
  C2: for each of the three theme names \<open>m\<close>, \<open>setTheme(m)\<close> followed by
  \<open>getTheme()\<close> returns \<open>m\<close>; for any other argument \<open>setTheme\<close> returns with the
  page as it was, so \<open>getTheme()\<close> gives what it gave before.
\<close>

theorem setTheme_then_getTheme:
  "(m = THEMES_SYSTEM \<or> m = THEMES_LIGHT \<or> m = THEMES_DARK \<longrightarrow>
      fst (js_seq (setTheme (JString m)) getTheme s) = Inr m) \<and>
   (v \<noteq> JString THEMES_SYSTEM \<and> v \<noteq> JString THEMES_LIGHT \<and> v \<noteq> JString THEMES_DARK \<longrightarrow>
      setTheme v s = (Inr (), s) \<and>
      fst (js_seq (setTheme v) getTheme s) = fst (getTheme s))"
proof (intro conjI impI)
  assume valid: "m = THEMES_SYSTEM \<or> m = THEMES_LIGHT \<or> m = THEMES_DARK"
  have "fst (setTheme (JString m) s) = Inr ()"
    using valid by (simp add: setTheme_valid applyTheme_returns)
  then have "fst (js_seq (setTheme (JString m)) getTheme s)
               = Inr (currentTheme (snd (setTheme (JString m) s)))"
    by (rule then_getTheme)
  then show "fst (js_seq (setTheme (JString m)) getTheme s) = Inr m"
    using valid by (simp add: setTheme_valid applyTheme_currentTheme)
next
  assume "v \<noteq> JString THEMES_SYSTEM \<and> v \<noteq> JString THEMES_LIGHT \<and> v \<noteq> JString THEMES_DARK"
  then have "\<not> js_includes THEMES_values v"
    by (simp add: js_includes_THEMES)
  then show noop: "setTheme v s = (Inr (), s)"
    by (rule setTheme_invalid)
  then show "fst (js_seq (setTheme v) getTheme s) = fst (getTheme s)"
    by (simp add: js_seq_def js_then_def)
qed

text \<open>
  C2 on a page at load: \<open>setTheme("light")\<close> makes \<open>getTheme()\<close> return
  \<open>"light"\<close>; \<open>setTheme("blue")\<close> and \<open>setTheme(1)\<close> change nothing.
\<close>

theorem setTheme_then_getTheme_witness:
  "fst (js_seq (setTheme (JString ''light'')) getTheme (sample_page (storage_holding None) None))
     = Inr ''light'' \<and>
   setTheme (JString ''blue'') (sample_page (storage_holding None) None)
     = (Inr (), sample_page (storage_holding None) None) \<and>
   setTheme (JNumber 1) (sample_page (storage_holding None) None)
     = (Inr (), sample_page (storage_holding None) None)"
  using setTheme_then_getTheme
          [of "''light''" "sample_page (storage_holding None) None" "JString ''blue''"]
        setTheme_then_getTheme
          [of "''light''" "sample_page (storage_holding None) None" "JNumber 1"]
  by (simp add: theme_names)

text \<open>
  C3: \<open>cycleTheme\<close> takes \<open>system\<close> to \<open>light\<close>, \<open>light\<close> to \<open>dark\<close> and \<open>dark\<close>
  to \<open>system\<close>, so from any of the three, three calls in a row return and leave
  the mode they started from.
\<close>

theorem cycleTheme_period_three:
  "(currentTheme s = THEMES_SYSTEM \<longrightarrow> currentTheme (snd (cycleTheme s)) = THEMES_LIGHT) \<and>
   (currentTheme s = THEMES_LIGHT \<longrightarrow> currentTheme (snd (cycleTheme s)) = THEMES_DARK) \<and>
   (currentTheme s = THEMES_DARK \<longrightarrow> currentTheme (snd (cycleTheme s)) = THEMES_SYSTEM) \<and>
   (currentTheme s = THEMES_SYSTEM \<or> currentTheme s = THEMES_LIGHT \<or>
    currentTheme s = THEMES_DARK \<longrightarrow>
      fst (js_seq cycleTheme (js_seq cycleTheme cycleTheme) s) = Inr () \<and>
      currentTheme (snd (js_seq cycleTheme (js_seq cycleTheme cycleTheme) s)) = currentTheme s)"
proof -
  have step: "currentTheme (snd (cycleTheme p)) =
        (if currentTheme p = THEMES_SYSTEM then THEMES_LIGHT
         else if currentTheme p = THEMES_LIGHT then THEMES_DARK
         else THEMES_SYSTEM)" for p
    by (simp add: cycleTheme_run applyTheme_currentTheme)
  have ret: "fst (cycleTheme p) = Inr ()" for p
    by (simp add: cycleTheme_run Let_def applyTheme_returns)
  have seq: "js_seq cycleTheme k p = k (snd (cycleTheme p))" for k :: "unit js" and p
    using ret [of p] by (cases "cycleTheme p") (simp add: js_seq_def js_then_def)
  show ?thesis
    by (simp add: seq step ret theme_names)
qed

text \<open>
  C3 from each of the three modes: one call gives the next mode of the cycle, three
  calls give the first one back.
\<close>

theorem cycleTheme_period_three_witness:
  "currentTheme (snd (cycleTheme (sample_page (storage_holding None) None))) = ''light'' \<and>
   currentTheme (snd (js_seq cycleTheme (js_seq cycleTheme cycleTheme)
      (sample_page (storage_holding None) None))) = ''system'' \<and>
   currentTheme (snd (cycleTheme
      ((sample_page (storage_holding None) None)\<lparr>currentTheme := ''light''\<rparr>))) = ''dark'' \<and>
   currentTheme (snd (js_seq cycleTheme (js_seq cycleTheme cycleTheme)
      ((sample_page (storage_holding None) None)\<lparr>currentTheme := ''light''\<rparr>))) = ''light'' \<and>
   currentTheme (snd (cycleTheme
      ((sample_page (storage_holding None) None)\<lparr>currentTheme := ''dark''\<rparr>))) = ''system'' \<and>
   currentTheme (snd (js_seq cycleTheme (js_seq cycleTheme cycleTheme)
      ((sample_page (storage_holding None) None)\<lparr>currentTheme := ''dark''\<rparr>))) = ''dark''"
  using cycleTheme_period_three [of "sample_page (storage_holding None) None"]
        cycleTheme_period_three
          [of "(sample_page (storage_holding None) None)\<lparr>currentTheme := ''light''\<rparr>"]
        cycleTheme_period_three
          [of "(sample_page (storage_holding None) None)\<lparr>currentTheme := ''dark''\<rparr>"]
  by (simp add: theme_names sample_page_def page_at_load_def)

text \<open>
  C4: \<open>applyTheme(mode)\<close> returns, and afterwards the document root has no
  \<open>data-theme\<close> attribute when \<open>mode\<close> is \<open>system\<close> and has \<open>data-theme\<close> equal to
  \<open>mode\<close> otherwise, so for \<open>light\<close> and for \<open>dark\<close>.
\<close>

theorem applyTheme_sets_marker:
  "fst (applyTheme mode s) = Inr () \<and>
   theme_marker (snd (applyTheme mode s)) = (if mode = THEMES_SYSTEM then None else Some mode)"
  by (simp add: applyTheme_returns applyTheme_marker)

text \<open>
  C4 for the three modes: \<open>system\<close> removes a marker that was there, \<open>light\<close> and
  \<open>dark\<close> set theirs.
\<close>

theorem applyTheme_sets_marker_witness:
  "theme_marker (snd (applyTheme ''system''
       (page_at_load (storage_holding None) [''data-theme'' \<mapsto> ''dark''] [] None))) = None \<and>
   theme_marker (snd (applyTheme ''light'' (sample_page (storage_holding None) None)))
     = Some ''light'' \<and>
   theme_marker (snd (applyTheme ''dark'' (sample_page (storage_holding None) None)))
     = Some ''dark''"
  using applyTheme_sets_marker
          [of "''system''" "page_at_load (storage_holding None) [''data-theme'' \<mapsto> ''dark''] [] None"]
        applyTheme_sets_marker [of "''light''" "sample_page (storage_holding None) None"]
        applyTheme_sets_marker [of "''dark''" "sample_page (storage_holding None) None"]
  by (simp add: theme_names)

text \<open>
  C5: every call \<open>applyTheme(mode)\<close> returns having dispatched one \<open>themeChange\<close>
  event, no more; the event carries \<open>mode\<close>, and a listener that reads
  \<open>getTheme()\<close> while it is dispatched reads \<open>mode\<close> already.
\<close>

theorem applyTheme_dispatches_once:
  "fst (applyTheme mode s) = Inr () \<and>
   dispatched (snd (applyTheme mode s)) = dispatched s @
     [\<lparr>detail_theme = mode, seen_currentTheme = mode,
       seen_data_theme = (if mode = THEMES_SYSTEM then None else Some mode)\<rparr>]"
  by (simp add: applyTheme_returns applyTheme_dispatched)

text \<open>
  C5 on a page at load whose mode is \<open>system\<close>: \<open>applyTheme("dark")\<close> dispatches
  one event, with \<open>"dark"\<close> as its theme and as the mode a listener reads.
\<close>

theorem applyTheme_dispatches_once_witness:
  "dispatched (snd (applyTheme ''dark'' (sample_page (storage_holding None) None))) =
     [\<lparr>detail_theme = ''dark'', seen_currentTheme = ''dark'', seen_data_theme = Some ''dark''\<rparr>]"
  using applyTheme_dispatches_once [of "''dark''" "sample_page (storage_holding None) None"]
  by (simp add: theme_names sample_page_def page_at_load_def)


text \<open>
  C6 as stated fails where the media query object has no \<open>addEventListener\<close>:
  \<open>initTheme\<close> then registers no change listener. On such a page, loaded with
  nothing stored, the mode is \<open>system\<close>; the operating system turns dark, the
  media query matches, and no \<open>themeChange\<close> event is dispatched.
\<close>

theorem os_appearance_change_counterexample:
  "currentTheme (snd (initTheme (sample_page (storage_holding None)
       (Some \<lparr>matches = False, has_addEventListener = False\<rparr>)))) = THEMES_SYSTEM \<and>
   getSystemTheme (os_appearance_change True (snd (initTheme (sample_page (storage_holding None)
       (Some \<lparr>matches = False, has_addEventListener = False\<rparr>))))) = THEMES_DARK \<and>
   dispatched (os_appearance_change True (snd (initTheme (sample_page (storage_holding None)
       (Some \<lparr>matches = False, has_addEventListener = False\<rparr>))))) =
   dispatched (snd (initTheme (sample_page (storage_holding None)
       (Some \<lparr>matches = False, has_addEventListener = False\<rparr>))))"
  by (simp add: os_appearance_change_def getSystemTheme_def initTheme_def js_defs
        getSavedTheme_run applyTheme_run Let_def sample_defs)

text \<open>
  C6, amended: where \<open>window.matchMedia\<close> exists and its media query object has
  \<open>addEventListener\<close>, \<open>initTheme\<close> registers one change listener. With that
  listener registered, a change of the operating system's appearance in mode
  \<open>system\<close> dispatches one \<open>themeChange\<close> event with theme \<open>system\<close>, leaves the
  mode \<open>system\<close>, and \<open>getSystemTheme\<close> follows the new appearance. In any other
  mode, on every page, the change dispatches nothing and leaves the mode and the
  root's attributes as they were.
\<close>

theorem os_appearance_change_subscribed:
  "(window_matchMedia p = Some mq \<and> has_addEventListener mq \<and> media_change_listeners p = 0 \<longrightarrow>
      media_change_listeners (snd (initTheme p)) = Suc 0) \<and>
   (media_change_listeners s = Suc 0 \<and> currentTheme s = THEMES_SYSTEM \<longrightarrow>
      dispatched (os_appearance_change dark s) = dispatched s @
        [\<lparr>detail_theme = THEMES_SYSTEM, seen_currentTheme = THEMES_SYSTEM,
          seen_data_theme = None\<rparr>] \<and>
      currentTheme (os_appearance_change dark s) = THEMES_SYSTEM \<and>
      (window_matchMedia s \<noteq> None \<longrightarrow>
         getSystemTheme (os_appearance_change dark s)
           = (if dark then THEMES_DARK else THEMES_LIGHT))) \<and>
   (currentTheme s \<noteq> THEMES_SYSTEM \<longrightarrow>
      dispatched (os_appearance_change dark s) = dispatched s \<and>
      currentTheme (os_appearance_change dark s) = currentTheme s \<and>
      root_attributes (os_appearance_change dark s) = root_attributes s)"
proof (intro conjI impI)
  assume "window_matchMedia p = Some mq \<and> has_addEventListener mq \<and> media_change_listeners p = 0"
  then show "media_change_listeners (snd (initTheme p)) = Suc 0"
    by (simp add: initTheme_media_change_listeners)
next
  assume h: "media_change_listeners s = Suc 0 \<and> currentTheme s = THEMES_SYSTEM"
  let ?s0 = "s\<lparr>window_matchMedia :=
                 map_option (\<lambda>mq. mq\<lparr>matches := dark\<rparr>) (window_matchMedia s)\<rparr>"
  have run: "os_appearance_change dark s = snd (applyTheme THEMES_SYSTEM ?s0)"
    using h by (simp add: os_appearance_change_def on_media_change_def)
  show "dispatched (os_appearance_change dark s) = dispatched s @
        [\<lparr>detail_theme = THEMES_SYSTEM, seen_currentTheme = THEMES_SYSTEM,
          seen_data_theme = None\<rparr>]"
    by (simp add: run applyTheme_dispatched)
  show "currentTheme (os_appearance_change dark s) = THEMES_SYSTEM"
    by (simp add: run applyTheme_currentTheme)
  assume "window_matchMedia s \<noteq> None"
  then show "getSystemTheme (os_appearance_change dark s)
               = (if dark then THEMES_DARK else THEMES_LIGHT)"
    by (auto simp add: run getSystemTheme_def applyTheme_keeps)
next
  assume h: "currentTheme s \<noteq> THEMES_SYSTEM"
  let ?s0 = "s\<lparr>window_matchMedia :=
                 map_option (\<lambda>mq. mq\<lparr>matches := dark\<rparr>) (window_matchMedia s)\<rparr>"
  have "run_listeners n on_media_change ?s0 = ?s0" for n
    by (rule run_listeners_idle) (simp add: on_media_change_def js_return_def h)
  then have run: "os_appearance_change dark s = ?s0"
    by (simp add: os_appearance_change_def)
  show "dispatched (os_appearance_change dark s) = dispatched s"
    and "currentTheme (os_appearance_change dark s) = currentTheme s"
    and "root_attributes (os_appearance_change dark s) = root_attributes s"
    by (simp_all add: run)
qed

text \<open>
  C6, amended, on a page whose media query has \<open>addEventListener\<close>: after
  \<open>initTheme\<close> with nothing stored there is one listener and the mode is
  \<open>system\<close>, and the system turning dark dispatches a second event, for
  \<open>system\<close>; after \<open>setTheme("dark")\<close> the same change dispatches nothing and
  the marker stays \<open>dark\<close>.
\<close>

theorem os_appearance_change_subscribed_witness:
  "media_change_listeners (snd (initTheme (sample_page (storage_holding None)
       (Some \<lparr>matches = False, has_addEventListener = True\<rparr>)))) = Suc 0 \<and>
   currentTheme (snd (initTheme (sample_page (storage_holding None)
       (Some \<lparr>matches = False, has_addEventListener = True\<rparr>)))) = ''system'' \<and>
   dispatched (os_appearance_change True (snd (initTheme (sample_page (storage_holding None)
       (Some \<lparr>matches = False, has_addEventListener = True\<rparr>))))) =
     [\<lparr>detail_theme = ''system'', seen_currentTheme = ''system'', seen_data_theme = None\<rparr>,
      \<lparr>detail_theme = ''system'', seen_currentTheme = ''system'', seen_data_theme = None\<rparr>] \<and>
   getSystemTheme (os_appearance_change True (snd (initTheme (sample_page (storage_holding None)
       (Some \<lparr>matches = False, has_addEventListener = True\<rparr>))))) = ''dark'' \<and>
   currentTheme (snd (setTheme (JString ''dark'') (snd (initTheme (sample_page
       (storage_holding None) (Some \<lparr>matches = False, has_addEventListener = True\<rparr>))))))
     \<noteq> ''system'' \<and>
   dispatched (os_appearance_change True (snd (setTheme (JString ''dark'') (snd (initTheme
       (sample_page (storage_holding None)
          (Some \<lparr>matches = False, has_addEventListener = True\<rparr>))))))) =
   dispatched (snd (setTheme (JString ''dark'') (snd (initTheme (sample_page
       (storage_holding None) (Some \<lparr>matches = False, has_addEventListener = True\<rparr>)))))) \<and>
   theme_marker (os_appearance_change True (snd (setTheme (JString ''dark'') (snd (initTheme
       (sample_page (storage_holding None)
          (Some \<lparr>matches = False, has_addEventListener = True\<rparr>))))))) = Some ''dark''"
proof -
  let ?p = "sample_page (storage_holding None) (Some \<lparr>matches = False, has_addEventListener = True\<rparr>)"
  let ?s1 = "snd (initTheme ?p)"
  let ?s2 = "snd (setTheme (JString ''dark'') ?s1)"
  have env: "window_matchMedia ?p = Some \<lparr>matches = False, has_addEventListener = True\<rparr>"
    "media_change_listeners ?p = 0"
    by (simp_all add: sample_page_def page_at_load_def)
  have cur1: "currentTheme ?s1 = ''system''"
    by (simp add: initTheme_currentTheme sample_defs)
  have mq1: "window_matchMedia ?s1 \<noteq> None"
    by (simp add: initTheme_def js_defs getSavedTheme_run applyTheme_run Let_def sample_defs)
  have disp1: "dispatched ?s1 =
      [\<lparr>detail_theme = ''system'', seen_currentTheme = ''system'', seen_data_theme = None\<rparr>]"
    by (simp add: initTheme_dispatched initTheme_currentTheme initTheme_marker Let_def sample_defs)
  have run2: "setTheme (JString ''dark'') ?s1 = applyTheme ''dark'' (snd (saveTheme ''dark'' ?s1))"
    using setTheme_valid [of "''dark''" ?s1] by (simp add: theme_names)
  have cur2: "currentTheme ?s2 = ''dark''"
    by (simp only: run2 applyTheme_currentTheme)
  have marker2: "theme_marker ?s2 = Some ''dark''"
    by (simp add: run2 applyTheme_marker theme_names)
  show ?thesis
    using os_appearance_change_subscribed
            [of ?p "\<lparr>matches = False, has_addEventListener = True\<rparr>" ?s1 True]
          os_appearance_change_subscribed
            [of ?p "\<lparr>matches = False, has_addEventListener = True\<rparr>" ?s2 True]
          env cur1 mq1 disp1 cur2 marker2
    by (simp add: theme_names)
qed


text \<open>
  C7: when the store throws on the write (access denied, or quota used up),
  \<open>setTheme(m)\<close> for a theme name \<open>m\<close> still returns without an exception,
  \<open>getTheme()\<close> returns \<open>m\<close> afterwards and the root's marker is the one of
  \<open>m\<close>; the store is as it was. When the store throws on the read, \<open>initTheme\<close>
  returns without an exception, in mode \<open>system\<close> and with no marker.
\<close>

theorem setTheme_store_failure:
  "((denied (localStorage s) \<or> quota_full (localStorage s)) \<and>
    (m = THEMES_SYSTEM \<or> m = THEMES_LIGHT \<or> m = THEMES_DARK) \<longrightarrow>
      fst (setTheme (JString m) s) = Inr () \<and>
      fst (js_seq (setTheme (JString m)) getTheme s) = Inr m \<and>
      currentTheme (snd (setTheme (JString m) s)) = m \<and>
      theme_marker (snd (setTheme (JString m) s))
        = (if m = THEMES_SYSTEM then None else Some m) \<and>
      localStorage (snd (setTheme (JString m) s)) = localStorage s) \<and>
   (denied (localStorage s) \<longrightarrow>
      fst (initTheme s) = Inr () \<and>
      currentTheme (snd (initTheme s)) = THEMES_SYSTEM \<and>
      theme_marker (snd (initTheme s)) = None)"
proof (intro conjI impI)
  assume h: "(denied (localStorage s) \<or> quota_full (localStorage s)) \<and>
    (m = THEMES_SYSTEM \<or> m = THEMES_LIGHT \<or> m = THEMES_DARK)"
  then have run: "setTheme (JString m) s = applyTheme m (snd (saveTheme m s))"
    by (simp add: setTheme_valid)
  show ret: "fst (setTheme (JString m) s) = Inr ()"
    by (simp add: run applyTheme_returns)
  show cur: "currentTheme (snd (setTheme (JString m) s)) = m"
    by (simp add: run applyTheme_currentTheme)
  show "fst (js_seq (setTheme (JString m)) getTheme s) = Inr m"
    using then_getTheme [of "setTheme (JString m)" s] ret cur by simp
  show "theme_marker (snd (setTheme (JString m) s))
          = (if m = THEMES_SYSTEM then None else Some m)"
    by (simp add: run applyTheme_marker)
  show "localStorage (snd (setTheme (JString m) s)) = localStorage s"
    using h by (auto simp add: run applyTheme_keeps saveTheme_run)
next
  assume "denied (localStorage s)"
  then show "currentTheme (snd (initTheme s)) = THEMES_SYSTEM"
    and "theme_marker (snd (initTheme s)) = None"
    by (simp_all add: initTheme_currentTheme initTheme_marker)
  show "fst (initTheme s) = Inr ()"
    by (rule initTheme_returns)
qed

text \<open>
  C7 on a page whose store is full, and on one whose store is denied and holds
  \<open>"dark"\<close>: \<open>setTheme("light")\<close> returns and \<open>getTheme()\<close> gives \<open>"light"\<close>
  with the marker \<open>light\<close> on both; \<open>initTheme\<close> on the denied store returns in
  mode \<open>system\<close>.
\<close>

theorem setTheme_store_failure_witness:
  "fst (setTheme (JString ''light'')
     (sample_page \<lparr>items = Map.empty, denied = False, quota_full = True\<rparr> None)) = Inr () \<and>
   fst (js_seq (setTheme (JString ''light'')) getTheme
     (sample_page \<lparr>items = Map.empty, denied = False, quota_full = True\<rparr> None))
     = Inr ''light'' \<and>
   theme_marker (snd (setTheme (JString ''light'')
     (sample_page \<lparr>items = Map.empty, denied = False, quota_full = True\<rparr> None)))
     = Some ''light'' \<and>
   fst (js_seq (setTheme (JString ''light'')) getTheme
     (sample_page \<lparr>items = [THEME_KEY \<mapsto> ''dark''], denied = True, quota_full = False\<rparr> None))
     = Inr ''light'' \<and>
   fst (initTheme
     (sample_page \<lparr>items = [THEME_KEY \<mapsto> ''dark''], denied = True, quota_full = False\<rparr> None))
     = Inr () \<and>
   currentTheme (snd (initTheme
     (sample_page \<lparr>items = [THEME_KEY \<mapsto> ''dark''], denied = True, quota_full = False\<rparr> None)))
     = ''system''"
  using setTheme_store_failure
          [of "sample_page \<lparr>items = Map.empty, denied = False, quota_full = True\<rparr> None"
              "''light''"]
        setTheme_store_failure
          [of "sample_page \<lparr>items = [THEME_KEY \<mapsto> ''dark''], denied = True,
                              quota_full = False\<rparr> None"
              "''light''"]
  by (simp add: theme_names sample_page_def page_at_load_def)

text \<open>
  C8: with a working store, \<open>setTheme(m)\<close> for a theme name \<open>m\<close> writes \<open>m\<close>
  under the preference key and touches no other key; \<open>initTheme\<close> on any page
  that starts with the store so left returns, and \<open>getTheme()\<close> then gives \<open>m\<close>.
\<close>

theorem setTheme_initTheme_roundtrip:
  assumes "m = THEMES_SYSTEM \<or> m = THEMES_LIGHT \<or> m = THEMES_DARK"
    and "\<not> denied (localStorage s)" and "\<not> quota_full (localStorage s)"
  shows "items (localStorage (snd (setTheme (JString m) s)))
           = (items (localStorage s))(THEME_KEY \<mapsto> m) \<and>
         (localStorage p = localStorage (snd (setTheme (JString m) s)) \<longrightarrow>
            fst (js_seq initTheme getTheme p) = Inr m)"
proof (intro conjI impI)
  have run: "setTheme (JString m) s = applyTheme m (snd (saveTheme m s))"
    using assms(1) by (simp add: setTheme_valid)
  have stored: "localStorage (snd (setTheme (JString m) s)) =
      (localStorage s)\<lparr>items := (items (localStorage s))(THEME_KEY \<mapsto> m)\<rparr>"
    using assms(2,3) by (simp add: run applyTheme_keeps saveTheme_run)
  show "items (localStorage (snd (setTheme (JString m) s)))
          = (items (localStorage s))(THEME_KEY \<mapsto> m)"
    by (simp add: stored)
  assume fresh: "localStorage p = localStorage (snd (setTheme (JString m) s))"
  have "m \<noteq> []"
    using assms(1) by (auto simp add: theme_names)
  then have "currentTheme (snd (initTheme p)) = m"
    using assms(2) by (simp add: initTheme_currentTheme fresh stored)
  then show "fst (js_seq initTheme getTheme p) = Inr m"
    using then_getTheme [of initTheme p] by (simp add: initTheme_returns)
qed

text \<open>
  C8 for \<open>dark\<close>, starting from an empty working store: the store then holds
  \<open>"dark"\<close> under \<open>"mms-theme-preference"\<close>, and a page loaded with that store
  comes up in mode \<open>dark\<close>.
\<close>

theorem setTheme_initTheme_roundtrip_witness:
  "items (localStorage (snd (setTheme (JString ''dark'')
      (sample_page (storage_holding None) None)))) ''mms-theme-preference'' = Some ''dark'' \<and>
   fst (js_seq initTheme getTheme
      (sample_page (localStorage (snd (setTheme (JString ''dark'')
         (sample_page (storage_holding None) None)))) None)) = Inr ''dark''"
proof -
  let ?s = "sample_page (storage_holding None) None"
  let ?p = "sample_page (localStorage (snd (setTheme (JString ''dark'') ?s))) None"
  have store: "\<not> denied (localStorage ?s)" "\<not> quota_full (localStorage ?s)"
    by (simp_all add: sample_defs)
  have fresh: "localStorage ?p = localStorage (snd (setTheme (JString ''dark'') ?s))"
    by (simp add: sample_page_def page_at_load_def)
  show ?thesis
    using setTheme_initTheme_roundtrip [of "''dark''" ?s ?p] store fresh
    by (simp add: theme_names THEME_KEY_def)
qed

text \<open>
  C9: \<open>cycleTheme\<close> returns from every page. When the mode is none of the three
  names it takes the default branch: it does what saving and applying \<open>system\<close>
  does, so the mode becomes \<open>system\<close>, the marker is removed, and a working store
  holds \<open>"system"\<close> under the preference key.
\<close>

theorem cycleTheme_default_branch:
  "fst (cycleTheme s) = Inr () \<and>
   (currentTheme s \<noteq> THEMES_SYSTEM \<and> currentTheme s \<noteq> THEMES_LIGHT \<and>
    currentTheme s \<noteq> THEMES_DARK \<longrightarrow>
      cycleTheme s = js_seq (saveTheme THEMES_SYSTEM) (applyTheme THEMES_SYSTEM) s \<and>
      currentTheme (snd (cycleTheme s)) = THEMES_SYSTEM \<and>
      theme_marker (snd (cycleTheme s)) = None \<and>
      (\<not> denied (localStorage s) \<and> \<not> quota_full (localStorage s) \<longrightarrow>
         items (localStorage (snd (cycleTheme s))) THEME_KEY = Some THEMES_SYSTEM))"
  by (simp add: cycleTheme_run save_then_apply applyTheme_returns applyTheme_currentTheme
        applyTheme_marker applyTheme_keeps saveTheme_run)

text \<open>
  C9 on the page \<open>initTheme\<close> leaves when the store holds \<open>"blue"\<close>: the mode is
  \<open>"blue"\<close>, and one \<open>cycleTheme\<close> makes it \<open>"system"\<close>, removes the marker and
  stores \<open>"system"\<close>.
\<close>

theorem cycleTheme_default_branch_witness:
  "currentTheme (snd (initTheme (sample_page (storage_holding (Some ''blue'')) None)))
     = ''blue'' \<and>
   fst (cycleTheme (snd (initTheme (sample_page (storage_holding (Some ''blue'')) None))))
     = Inr () \<and>
   currentTheme (snd (cycleTheme (snd (initTheme
      (sample_page (storage_holding (Some ''blue'')) None))))) = ''system'' \<and>
   theme_marker (snd (cycleTheme (snd (initTheme
      (sample_page (storage_holding (Some ''blue'')) None))))) = None \<and>
   items (localStorage (snd (cycleTheme (snd (initTheme
      (sample_page (storage_holding (Some ''blue'')) None))))))
      ''mms-theme-preference'' = Some ''system''"
proof -
  let ?s1 = "snd (initTheme (sample_page (storage_holding (Some ''blue'')) None))"
  have cur: "currentTheme ?s1 = ''blue''"
    by (simp add: initTheme_currentTheme sample_defs)
  have store: "\<not> denied (localStorage ?s1)" "\<not> quota_full (localStorage ?s1)"
    by (simp_all add: initTheme_localStorage sample_defs)
  have other: "currentTheme ?s1 \<noteq> THEMES_SYSTEM \<and> currentTheme ?s1 \<noteq> THEMES_LIGHT \<and>
      currentTheme ?s1 \<noteq> THEMES_DARK"
    by (simp add: cur theme_names)
  from cycleTheme_default_branch [of ?s1] other store
  have "fst (cycleTheme ?s1) = Inr () \<and>
      currentTheme (snd (cycleTheme ?s1)) = THEMES_SYSTEM \<and>
      theme_marker (snd (cycleTheme ?s1)) = None \<and>
      items (localStorage (snd (cycleTheme ?s1))) THEME_KEY = Some THEMES_SYSTEM"
    by blast
  then show ?thesis
    using cur by (simp add: theme_names THEME_KEY_def)
qed

text \<open>
  C10: when the value stored under the preference key is the empty string,
  \<open>getSavedTheme\<close> returns \<open>system\<close>, as it does when nothing is stored.
\<close>

theorem getSavedTheme_empty_string:
  "items (localStorage s) THEME_KEY = Some [] \<or> items (localStorage s) THEME_KEY = None \<Longrightarrow>
   fst (getSavedTheme s) = Inr THEMES_SYSTEM"
  by (auto simp add: getSavedTheme_run)

text \<open>
  C10 on two pages with a working store, one holding \<open>""\<close> and one holding
  nothing: \<open>getSavedTheme\<close> returns \<open>"system"\<close> on both.
\<close>

theorem getSavedTheme_empty_string_witness:
  "items (localStorage (sample_page (storage_holding (Some [])) None)) THEME_KEY = Some [] \<and>
   fst (getSavedTheme (sample_page (storage_holding (Some [])) None)) = Inr ''system'' \<and>
   items (localStorage (sample_page (storage_holding None) None)) THEME_KEY = None \<and>
   fst (getSavedTheme (sample_page (storage_holding None) None)) = Inr ''system''"
  using getSavedTheme_empty_string [of "sample_page (storage_holding (Some [])) None"]
        getSavedTheme_empty_string [of "sample_page (storage_holding None) None"]
  by (simp add: theme_names storage_holding_def sample_page_def page_at_load_def)


end
